theory Spec2Isabelle
  imports Main "HOL-Library.AList" "HOL-Library.Sublist"
begin

section \<open>Data Vault: the storage and versioning engine of \<^verbatim>\<open>Data_Vault.py\<close>\<close>

text \<open>
  The class \<^verbatim>\<open>DataVault\<close> keeps a catalog (\<^verbatim>\<open>self.metadata\<close>, a dict from file name to
  an entry with its list of versions and its current index) and a directory on disk with
  one copy of the content per version and the catalog as a JSON document. The model has
  the catalog and the disk as the two fields of the state; every method takes the state
  and returns what it returned or raised together with the state it left behind.
\<close>

subsection \<open>Paths, bytes and the file system\<close>

text \<open>
  A path is the list of its components, as \<^verbatim>\<open>pathlib\<close>'s \<^verbatim>\<open>parts\<close>; an absolute path
  starts with the component \<^verbatim>\<open>/\<close>. The source receives paths as strings and parses them
  with \<^verbatim>\<open>Path(...)\<close>; the model starts from the parsed path, and a path names at most one
  node (no links, no \<^verbatim>\<open>..\<close> that is resolved). Bytes are Isabelle characters, which are
  8 bits wide.
\<close>

type_synonym path = "string list"
type_synonym bytes = string

datatype node = Dir | File bytes

type_synonym fs = "path \<rightharpoonup> node"

datatype exn =
    FileNotFoundError | IsADirectoryError | NotADirectoryError | FileExistsError
  | SameFileError | OSError | JSONDecodeError | IndexError | KeyError

datatype 'a outcome = Returned 'a | Raised exn

text \<open>\<^verbatim>\<open>Path.name\<close>: the final component, empty for the root and for the empty path.\<close>

definition path_name :: "path \<Rightarrow> string" where
  "path_name p = (if p = [] \<or> p = [''/''] then [] else last p)"

text \<open>\<^verbatim>\<open>Path.parent\<close>: the root is its own parent, and so is the empty path.\<close>

definition parent :: "path \<Rightarrow> path" where
  "parent p = (if p = [''/''] then p else butlast p)"

text \<open>The working directory (the empty path) and the root are directories that always exist.\<close>

definition node_at :: "fs \<Rightarrow> path \<Rightarrow> node option" where
  "node_at d p = (if p = [] \<or> p = [''/''] then Some Dir else d p)"

definition exists :: "fs \<Rightarrow> path \<Rightarrow> bool" where
  "exists d p = (node_at d p \<noteq> None)"

definition is_dir :: "fs \<Rightarrow> path \<Rightarrow> bool" where
  "is_dir d p = (node_at d p = Some Dir)"

text \<open>\<^verbatim>\<open>open(p, 'rb')\<close> and reading to the end.\<close>

definition read_bytes :: "fs \<Rightarrow> path \<Rightarrow> exn + bytes" where
  "read_bytes d p =
     (case node_at d p of
        None \<Rightarrow> Inl FileNotFoundError
      | Some Dir \<Rightarrow> Inl IsADirectoryError
      | Some (File bs) \<Rightarrow> Inr bs)"

text \<open>\<^verbatim>\<open>open(p, 'w')\<close> (or \<^verbatim>\<open>'wb'\<close>), writing \<open>bs\<close> and closing.\<close>

definition write_file :: "fs \<Rightarrow> path \<Rightarrow> bytes \<Rightarrow> exn + fs" where
  "write_file d p bs =
     (if is_dir d p then Inl IsADirectoryError
      else if is_dir d (parent p) then Inr (d(p \<mapsto> File bs))
      else if exists d (parent p) then Inl NotADirectoryError
      else Inl FileNotFoundError)"

text \<open>\<^verbatim>\<open>os.mkdir\<close>.\<close>

definition os_mkdir :: "fs \<Rightarrow> path \<Rightarrow> exn + fs" where
  "os_mkdir d p =
     (if exists d p then Inl FileExistsError
      else if is_dir d (parent p) then Inr (d(p \<mapsto> Dir))
      else if exists d (parent p) then Inl NotADirectoryError
      else Inl FileNotFoundError)"

text \<open>
  \<^verbatim>\<open>Path.mkdir(exist_ok=True)\<close>: a missing parent is an error, an existing directory
  is not.
\<close>

definition mkdir :: "fs \<Rightarrow> path \<Rightarrow> exn + fs" where
  "mkdir d p =
     (case os_mkdir d p of
        Inr d' \<Rightarrow> Inr d'
      | Inl e \<Rightarrow> if e = FileNotFoundError then Inl e
                 else if is_dir d p then Inr d else Inl e)"

text \<open>
  \<^verbatim>\<open>Path.mkdir(parents=True, exist_ok=True)\<close>: when the parent is missing it is made
  first, in the same way, and the directory itself after it.
\<close>

function mkdir_parents :: "fs \<Rightarrow> path \<Rightarrow> exn + fs" where
  "mkdir_parents d p =
     (case os_mkdir d p of
        Inr d' \<Rightarrow> Inr d'
      | Inl e \<Rightarrow>
          if e = FileNotFoundError then
            (if parent p = p then Inl e
             else (case mkdir_parents d (parent p) of
                     Inl e' \<Rightarrow> Inl e'
                   | Inr d' \<Rightarrow> mkdir d' p))
          else if is_dir d p then Inr d else Inl e)"
  by pat_completeness auto
termination
proof (relation "measure (\<lambda>(d, p). length p)")
  fix d :: fs and p :: path
  assume "parent p \<noteq> p"
  then show "((d, parent p), (d, p)) \<in> measure (\<lambda>(d, p). length p)"
    by (cases p) (auto simp: parent_def split: if_splits)
qed simp

declare mkdir_parents.simps [simp del]

text \<open>
  \<^verbatim>\<open>shutil.copy2(src, dst)\<close>: a destination that is a directory stands for the file of
  the source's name inside it; copying a file onto itself is refused; the source is read
  and the destination written. \<open>io_error\<close> is the one fault that the state of the model
  does not determine: the device failing the write (disk full, permission denied); the
  model leaves the disk as it was then. File times and permissions are not modelled.
\<close>

definition copy_target :: "fs \<Rightarrow> path \<Rightarrow> path \<Rightarrow> path" where
  "copy_target d src dst = (if is_dir d dst then dst @ [path_name src] else dst)"

definition copy2 :: "bool \<Rightarrow> fs \<Rightarrow> path \<Rightarrow> path \<Rightarrow> exn + fs" where
  "copy2 io_error d src dst =
     (let dst' = copy_target d src dst in
      if src = dst' then Inl SameFileError
      else (case read_bytes d src of
              Inl e \<Rightarrow> Inl e
            | Inr bs \<Rightarrow> if io_error then Inl OSError else write_file d dst' bs))"

text \<open>\<^verbatim>\<open>shutil.rmtree\<close>: the directory and everything below it.\<close>

definition rmtree :: "fs \<Rightarrow> path \<Rightarrow> exn + fs" where
  "rmtree d p =
     (case node_at d p of
        None \<Rightarrow> Inl FileNotFoundError
      | Some (File bs) \<Rightarrow> Inl NotADirectoryError
      | Some Dir \<Rightarrow> Inr (\<lambda>q. if prefix p q then None else d q))"

text \<open>
  \<^verbatim>\<open>Path.stat().st_size\<close>. The size of a directory is the platform's business;
  \<open>add_file\<close> asks for the size of a path it has just read as a file.
\<close>

definition st_size :: "fs \<Rightarrow> path \<Rightarrow> exn + int" where
  "st_size d p =
     (case node_at d p of
        None \<Rightarrow> Inl FileNotFoundError
      | Some Dir \<Rightarrow> Inr 0
      | Some (File bs) \<Rightarrow> Inr (int (length bs)))"

subsection \<open>Decimal numbers in messages and directory names\<close>

definition digit_char :: "nat \<Rightarrow> char" where
  "digit_char n = ''0123456789'' ! (n mod 10)"

fun digits :: "nat \<Rightarrow> string" where
  "digits n = (if n < 10 then [digit_char n] else digits (n div 10) @ [digit_char n])"

declare digits.simps [simp del]

text \<open>\<^verbatim>\<open>str\<close> of a Python integer, as an f-string prints it.\<close>

definition py_str :: "int \<Rightarrow> string" where
  "py_str i = (if i < 0 then CHR ''-'' # digits (nat (- i)) else digits (nat i))"

text \<open>\<^verbatim>\<open>sep.join(xs)\<close>, and a path printed with \<^verbatim>\<open>/\<close> between its components.\<close>

fun py_join :: "string \<Rightarrow> string list \<Rightarrow> string" where
  "py_join sep [] = []"
| "py_join sep [x] = x"
| "py_join sep (x # xs) = x @ sep @ py_join sep xs"

definition path_str :: "path \<Rightarrow> string" where
  "path_str p = (case p of [] \<Rightarrow> ''.'' | c # cs \<Rightarrow>
                   if c = ''/'' then CHR ''/'' # py_join ''/'' cs else py_join ''/'' p)"

subsection \<open>The libraries the engine calls\<close>

text \<open>A JSON value, as \<^verbatim>\<open>json.load\<close> returns it (numbers that are not integers left out).\<close>

datatype json =
    JNull | JBool bool | JNum int | JStr string
  | JArr "json list" | JObj "(string \<times> json) list"

text \<open>
  \<^verbatim>\<open>hashlib.sha256\<close> and the \<^verbatim>\<open>json\<close> module are not code of the engine: they are
  parameters. \<open>sha_new\<close> is a fresh digest object, \<open>sha_update\<close> feeds it bytes,
  \<open>sha_hexdigest\<close> reads it out; \<open>json_dumps\<close> is the text \<^verbatim>\<open>json.dump\<close> writes, and
  \<open>json_loads\<close> the value \<^verbatim>\<open>json.load\<close> reads, \<open>None\<close> where it raises.
\<close>

record 'h pylib =
  sha_new :: 'h
  sha_update :: "'h \<Rightarrow> bytes \<Rightarrow> 'h"
  sha_hexdigest :: "'h \<Rightarrow> string"
  json_dumps :: "json \<Rightarrow> bytes"
  json_loads :: "bytes \<Rightarrow> json option"

subsection \<open>The catalog\<close>

record version_info =
  version :: int
  timestamp :: string
  size_bytes :: int
  hash :: string
  path :: path

record entry =
  name :: string
  versions :: "version_info list"
  current_version :: int

text \<open>
  A Python dict keeps its keys in the order of their first insertion: an association
  list. \<^const>\<open>AList.update\<close> is the assignment \<^verbatim>\<open>d[k] = v\<close> (in place for a key that is
  there, at the end for a new one), \<^const>\<open>AList.delete\<close> is \<^verbatim>\<open>del d[k]\<close>, and
  \<^const>\<open>map_of\<close> the lookup.

  The field \<open>path\<close> of a version is the string of a path relative to the vault
  directory; the model keeps its components, which is what \<open>export_file\<close> gets back when
  it joins the string to the vault directory. A file name is one component of a path
  (it comes from \<^verbatim>\<open>Path.name\<close>).

  The methods are modelled on catalogs of this shape, the shape of every document the
  engine writes. What \<open>load_metadata\<close> reads is a JSON value of any shape, and it is
  modelled as such.
\<close>

type_synonym catalog = "(string \<times> entry) list"

record vault =
  vault_dir :: path
  metadata :: catalog
  disk :: fs

definition metadata_file :: "path \<Rightarrow> path" where
  "metadata_file vd = vd @ [''metadata.json'']"

definition files_dir :: "path \<Rightarrow> path" where
  "files_dir vd = vd @ [''files'']"

text \<open>The document \<^verbatim>\<open>json.dump(self.metadata, ...)\<close> serialises.\<close>

definition json_of_version :: "version_info \<Rightarrow> json" where
  "json_of_version r =
     JObj [(''version'', JNum (version r)),
           (''timestamp'', JStr (timestamp r)),
           (''size'', JNum (size_bytes r)),
           (''hash'', JStr (hash r)),
           (''path'', JStr (path_str (path r)))]"

definition json_of_entry :: "entry \<Rightarrow> json" where
  "json_of_entry e =
     JObj [(''name'', JStr (name e)),
           (''versions'', JArr (map json_of_version (versions e))),
           (''current_version'', JNum (current_version e))]"

definition json_of_catalog :: "catalog \<Rightarrow> json" where
  "json_of_catalog c = JObj (map (\<lambda>(k, e). (k, json_of_entry e)) c)"

text \<open>Python's \<^verbatim>\<open>xs[i]\<close>: a negative index counts from the end, out of range raises.\<close>

definition py_index :: "'a list \<Rightarrow> int \<Rightarrow> 'a option" where
  "py_index xs i =
     (if 0 \<le> i \<and> i < int (length xs) then Some (xs ! nat i)
      else if i < 0 \<and> - int (length xs) \<le> i then Some (xs ! nat (int (length xs) + i))
      else None)"

subsection \<open>The methods of \<^verbatim>\<open>DataVault\<close>\<close>

definition load_metadata :: "'h pylib \<Rightarrow> path \<Rightarrow> fs \<Rightarrow> exn + json" where
  "load_metadata lib vd d =
     (if exists d (metadata_file vd) then
        (case read_bytes d (metadata_file vd) of
           Inl e \<Rightarrow> Inl e
         | Inr bs \<Rightarrow> (case json_loads lib bs of
                       None \<Rightarrow> Inl JSONDecodeError
                     | Some j \<Rightarrow> Inr j))
      else Inr (JObj []))"

text \<open>
  \<^verbatim>\<open>__init__\<close>: the two directories are made and the catalog is loaded. The result is
  the exception that left the constructor, or the value that became \<^verbatim>\<open>self.metadata\<close>,
  and the disk afterwards.
\<close>

definition init_vault :: "'h pylib \<Rightarrow> path \<Rightarrow> fs \<Rightarrow> (exn + json) \<times> fs" where
  "init_vault lib vd d =
     (case mkdir d vd of
        Inl e \<Rightarrow> (Inl e, d)
      | Inr d1 \<Rightarrow>
          (case mkdir d1 (files_dir vd) of
             Inl e \<Rightarrow> (Inl e, d1)
           | Inr d2 \<Rightarrow> (load_metadata lib vd d2, d2)))"

definition save_metadata :: "'h pylib \<Rightarrow> vault \<Rightarrow> exn + fs" where
  "save_metadata lib v =
     write_file (disk v) (metadata_file (vault_dir v))
       (json_dumps lib (json_of_catalog (metadata v)))"

text \<open>
  The iterator of \<open>calculate_hash\<close>: \<^verbatim>\<open>f.read(4096)\<close> takes the next 4096 bytes, fewer
  at the end of the file, and \<^verbatim>\<open>iter(..., b"")\<close> stops at the first empty read. The
  \<^verbatim>\<open>for\<close> loop feeds the chunks to the digest one after the other.
\<close>

function read_chunks :: "bytes \<Rightarrow> bytes list" where
  "read_chunks bs =
     (if take 4096 bs = [] then [] else take 4096 bs # read_chunks (drop 4096 bs))"
  by pat_completeness auto
termination
  by (relation "measure length") auto

declare read_chunks.simps [simp del]

definition calculate_hash :: "'h pylib \<Rightarrow> fs \<Rightarrow> path \<Rightarrow> exn + string" where
  "calculate_hash lib d file_path =
     (case read_bytes d file_path of
        Inl e \<Rightarrow> Inl e
      | Inr bs \<Rightarrow>
          Inr (take 16 (sha_hexdigest lib
                 (foldl (sha_update lib) (sha_new lib) (read_chunks bs)))))"

text \<open>
  \<open>add_file\<close>. \<open>now\<close> is what \<^verbatim>\<open>datetime.now().isoformat()\<close> returns during the call.
  The steps are those of the source in its order, and each one that can raise returns
  the state as it is at that moment.
\<close>

definition add_file ::
  "'h pylib \<Rightarrow> string \<Rightarrow> bool \<Rightarrow> path \<Rightarrow> vault \<Rightarrow> (bool \<times> string) outcome \<times> vault" where
  "add_file lib now io_error source v =
     (if \<not> exists (disk v) source then (Returned (False, ''File does not exist''), v)
      else
        (let file_name = path_name source in
         (case calculate_hash lib (disk v) source of
            Inl x \<Rightarrow> (Raised x, v)
          | Inr file_hash \<Rightarrow>
             (let v1 = (if map_of (metadata v) file_name = None
                        then v\<lparr>metadata := AList.update file_name
                                  \<lparr>name = file_name, versions = [], current_version = 0\<rparr>
                                  (metadata v)\<rparr>
                        else v)
              in
              (case map_of (metadata v1) file_name of
                 None \<Rightarrow> (Raised KeyError, v1)
               | Some e \<Rightarrow>
                  (let version_num = int (length (versions e)) + 1;
                       version_dir =
                         files_dir (vault_dir v) @ [file_name, ''v'' @ py_str version_num]
                   in
                   (case mkdir_parents (disk v1) version_dir of
                      Inl x \<Rightarrow> (Raised x, v1)
                    | Inr d2 \<Rightarrow>
                       (let dest = version_dir @ [file_name] in
                        (case copy2 io_error d2 source dest of
                           Inl x \<Rightarrow> (Raised x, v1\<lparr>disk := d2\<rparr>)
                         | Inr d3 \<Rightarrow>
                            (case st_size d3 source of
                               Inl x \<Rightarrow> (Raised x, v1\<lparr>disk := d3\<rparr>)
                             | Inr sz \<Rightarrow>
                                (let version_info =
                                       \<lparr>version = version_num, timestamp = now,
                                        size_bytes = sz, hash = file_hash,
                                        path = drop (length (vault_dir v)) dest\<rparr>;
                                     e' = e\<lparr>versions := versions e @ [version_info],
                                            current_version := version_num - 1\<rparr>;
                                     v4 = v1\<lparr>metadata :=
                                                AList.update file_name e' (metadata v1),
                                              disk := d3\<rparr>
                                 in
                                 (case save_metadata lib v4 of
                                    Inl x \<Rightarrow> (Raised x, v4)
                                  | Inr d5 \<Rightarrow>
                                     (Returned
                                        (True, ''File '' @ [CHR 0x27] @ file_name @ [CHR 0x27]
                                               @ '' added as version '' @ py_str version_num),
                                      v4\<lparr>disk := d5\<rparr>)))))))))))))"

definition get_file_list :: "vault \<Rightarrow> string list" where
  "get_file_list v = map fst (metadata v)"

definition get_versions :: "string \<Rightarrow> vault \<Rightarrow> version_info list" where
  "get_versions file_name v =
     (case map_of (metadata v) file_name of Some e \<Rightarrow> versions e | None \<Rightarrow> [])"

definition get_current_version_index :: "string \<Rightarrow> vault \<Rightarrow> int" where
  "get_current_version_index file_name v =
     (case map_of (metadata v) file_name of Some e \<Rightarrow> current_version e | None \<Rightarrow> - 1)"

definition rollback_version ::
  "'h pylib \<Rightarrow> string \<Rightarrow> int \<Rightarrow> vault \<Rightarrow> (bool \<times> string) outcome \<times> vault" where
  "rollback_version lib file_name version_index v =
     (case map_of (metadata v) file_name of
        None \<Rightarrow> (Returned (False, ''File not found''), v)
      | Some e \<Rightarrow>
          if version_index < 0 \<or> version_index \<ge> int (length (versions e))
          then (Returned (False, ''Invalid version index''), v)
          else
            let v1 = v\<lparr>metadata := AList.update file_name
                          (e\<lparr>current_version := version_index\<rparr>) (metadata v)\<rparr>
            in
            (case save_metadata lib v1 of
               Inl x \<Rightarrow> (Raised x, v1)
             | Inr d \<Rightarrow>
                 (Returned (True, ''Rolled back to version '' @ py_str (version_index + 1)),
                  v1\<lparr>disk := d\<rparr>)))"

definition export_file ::
  "bool \<Rightarrow> string \<Rightarrow> path \<Rightarrow> vault \<Rightarrow> (bool \<times> string) outcome \<times> vault" where
  "export_file io_error file_name dest_path v =
     (case map_of (metadata v) file_name of
        None \<Rightarrow> (Returned (False, ''File not found''), v)
      | Some e \<Rightarrow>
          (case py_index (versions e) (current_version e) of
             None \<Rightarrow> (Raised IndexError, v)
           | Some version_info \<Rightarrow>
               let source = vault_dir v @ path version_info in
               if \<not> exists (disk v) source
               then (Returned (False, ''Source file not found''), v)
               else
                 (case copy2 io_error (disk v) source dest_path of
                    Inl x \<Rightarrow> (Raised x, v)
                  | Inr d \<Rightarrow>
                      (Returned (True, ''File exported to '' @ path_str dest_path),
                       v\<lparr>disk := d\<rparr>))))"

definition delete_file ::
  "'h pylib \<Rightarrow> string \<Rightarrow> vault \<Rightarrow> (bool \<times> string) outcome \<times> vault" where
  "delete_file lib file_name v =
     (case map_of (metadata v) file_name of
        None \<Rightarrow> (Returned (False, ''File not found''), v)
      | Some e \<Rightarrow>
          (let file_dir = files_dir (vault_dir v) @ [file_name] in
           (case (if exists (disk v) file_dir then rmtree (disk v) file_dir
                  else Inr (disk v)) of
              Inl x \<Rightarrow> (Raised x, v)
            | Inr d \<Rightarrow>
               (let v1 = v\<lparr>metadata := AList.delete file_name (metadata v), disk := d\<rparr> in
                (case save_metadata lib v1 of
                   Inl x \<Rightarrow> (Raised x, v1)
                 | Inr d' \<Rightarrow>
                    (Returned
                       (True, ''File '' @ [CHR 0x27] @ file_name @ [CHR 0x27] @ '' deleted''),
                     v1\<lparr>disk := d'\<rparr>))))))"

subsection \<open>Notions the properties are stated with\<close>

text \<open>A call succeeded when it returned, and returned \<^verbatim>\<open>True\<close> as its first component.\<close>

definition succeeded :: "(bool \<times> string) outcome \<Rightarrow> bool" where
  "succeeded r = (case r of Returned (ok, msg) \<Rightarrow> ok | Raised x \<Rightarrow> False)"

text \<open>
  A run of \<open>add_file\<close> calls, each given by its time stamp, its device fault and its
  source path: the state after the last one when every call succeeded.
\<close>

fun add_all :: "'h pylib \<Rightarrow> (string \<times> bool \<times> path) list \<Rightarrow> vault \<Rightarrow> vault option" where
  "add_all lib [] v = Some v"
| "add_all lib ((now, io_error, source) # calls) v =
     (let (r, v') = add_file lib now io_error source v
      in if succeeded r then add_all lib calls v' else None)"

text \<open>The calls of a run whose source has the base name \<open>nm\<close>.\<close>

definition calls_for :: "string \<Rightarrow> (string \<times> bool \<times> path) list \<Rightarrow> (string \<times> bool \<times> path) list" where
  "calls_for nm calls = filter (\<lambda>(now, io_error, source). path_name source = nm) calls"

text \<open>
  What \<open>init_vault\<close> leaves on the disk: the vault directory is a directory and
  \<^verbatim>\<open>metadata.json\<close> in it is not one, so that the catalog can be written.
\<close>

definition vault_ready :: "vault \<Rightarrow> bool" where
  "vault_ready v =
     (is_dir (disk v) (vault_dir v) \<and> \<not> is_dir (disk v) (metadata_file (vault_dir v)))"



text \<open>
  The schema of the catalog document as section 6 of the specification words it: an
  object that maps each file name to an object with the name, the list of versions
  (version number, time stamp, size, a fingerprint of 16 hexadecimal characters, path) and
  the current index. The source has no such check; the definition is there to say which
  documents the specification means.
\<close>

definition is_hex16 :: "string \<Rightarrow> bool" where
  "is_hex16 s = (length s = 16 \<and> list_all (\<lambda>c. c \<in> set ''0123456789abcdef'') s)"

fun json_int :: "json option \<Rightarrow> int option" where
  "json_int (Some (JNum n)) = Some n"
| "json_int j = None"

fun json_str :: "json option \<Rightarrow> string option" where
  "json_str (Some (JStr s)) = Some s"
| "json_str j = None"

fun json_arr :: "json option \<Rightarrow> json list option" where
  "json_arr (Some (JArr xs)) = Some xs"
| "json_arr j = None"

fun spec_version_schema :: "json \<Rightarrow> bool" where
  "spec_version_schema (JObj kvs) =
     (map fst kvs = [''version'', ''timestamp'', ''size'', ''hash'', ''path'']
      \<and> json_int (map_of kvs ''version'') \<noteq> None
      \<and> json_str (map_of kvs ''timestamp'') \<noteq> None
      \<and> (case json_int (map_of kvs ''size'') of None \<Rightarrow> False | Some sz \<Rightarrow> 0 \<le> sz)
      \<and> (case json_str (map_of kvs ''hash'') of None \<Rightarrow> False | Some h \<Rightarrow> is_hex16 h)
      \<and> json_str (map_of kvs ''path'') \<noteq> None)"
| "spec_version_schema j = False"

fun spec_entry_schema :: "string \<Rightarrow> json \<Rightarrow> bool" where
  "spec_entry_schema k (JObj kvs) =
     (map fst kvs = [''name'', ''versions'', ''current_version'']
      \<and> json_str (map_of kvs ''name'') = Some k
      \<and> (case json_arr (map_of kvs ''versions'') of
            None \<Rightarrow> False | Some vs \<Rightarrow> list_all spec_version_schema vs)
      \<and> json_int (map_of kvs ''current_version'') \<noteq> None)"
| "spec_entry_schema k j = False"

fun spec_catalog_schema :: "json \<Rightarrow> bool" where
  "spec_catalog_schema (JObj kvs) = list_all (\<lambda>(k, j). spec_entry_schema k j) kvs"
| "spec_catalog_schema j = False"



subsection \<open>An instance to run the model on\<close>

text \<open>
  To run the methods on an example the library parameters need values. The digest
  counts the bytes it is fed and prints the count's last hexadecimal digit 64 times; the
  printer writes a JSON value on one line, strings unescaped; the reader knows the three
  documents the examples read, \<^verbatim>\<open>{}\<close>, \<^verbatim>\<open>[]\<close> and one that is not JSON.
\<close>

fun print_json :: "json \<Rightarrow> string" where
  "print_json JNull = ''null''"
| "print_json (JBool b) = (if b then ''true'' else ''false'')"
| "print_json (JNum i) = py_str i"
| "print_json (JStr s) = CHR 0x22 # s @ [CHR 0x22]"
| "print_json (JArr xs) = ''['' @ py_join '', '' (map print_json xs) @ '']''"
| "print_json (JObj kvs) =
     ''{'' @ py_join '', ''
              (map (\<lambda>kv. CHR 0x22 # fst kv @ [CHR 0x22] @ '': '' @ print_json (snd kv)) kvs)
       @ ''}''"

definition example_lib :: "nat pylib" where
  "example_lib =
     \<lparr>sha_new = 0,
      sha_update = (\<lambda>h bs. h + length bs),
      sha_hexdigest = (\<lambda>h. replicate 64 (''0123456789abcdef'' ! (h mod 16))),
      json_dumps = print_json,
      json_loads = (\<lambda>bs. if bs = ''{}'' then Some (JObj [])
                          else if bs = ''[]'' then Some (JArr []) else None)\<rparr>"

text \<open>
  A disk with two files named \<^verbatim>\<open>report.txt\<close> in two directories and an empty file,
  and the vault on it right after \<open>init_vault\<close>.
\<close>

definition example_disk :: fs where
  "example_disk =
     Map.empty([''in''] \<mapsto> Dir,
               [''in'', ''report.txt''] \<mapsto> File ''hello'',
               [''in'', ''empty.bin''] \<mapsto> File [],
               [''in2''] \<mapsto> Dir,
               [''in2'', ''report.txt''] \<mapsto> File ''hello world'')"

definition example_vault :: vault where
  "example_vault =
     \<lparr>vault_dir = [''data_vault''], metadata = [],
      disk = example_disk([''data_vault''] \<mapsto> Dir, [''data_vault'', ''files''] \<mapsto> Dir)\<rparr>"

definition example_calls :: "(string \<times> bool \<times> path) list" where
  "example_calls =
     [(''2024-01-01T10:00:00'', False, [''in'', ''report.txt'']),
      (''2024-01-01T10:05:00'', False, [''in'', ''empty.bin'']),
      (''2024-01-01T10:10:00'', False, [''in2'', ''report.txt''])]"

text \<open>
  The catalog and the vault that the three calls of \<open>example_calls\<close> lead to: two
  versions of \<^verbatim>\<open>report.txt\<close>, one of \<^verbatim>\<open>empty.bin\<close>.
\<close>

definition example_catalog2 :: catalog where
  "example_catalog2 =
     [(''report.txt'',
       \<lparr>name = ''report.txt'',
        versions =
          [\<lparr>version = 1, timestamp = ''2024-01-01T10:00:00'', size_bytes = 5,
            hash = ''5555555555555555'',
            path = [''files'', ''report.txt'', ''v1'', ''report.txt'']\<rparr>,
           \<lparr>version = 2, timestamp = ''2024-01-01T10:10:00'', size_bytes = 11,
            hash = ''bbbbbbbbbbbbbbbb'',
            path = [''files'', ''report.txt'', ''v2'', ''report.txt'']\<rparr>],
        current_version = 1\<rparr>),
      (''empty.bin'',
       \<lparr>name = ''empty.bin'',
        versions =
          [\<lparr>version = 1, timestamp = ''2024-01-01T10:05:00'', size_bytes = 0,
            hash = ''0000000000000000'',
            path = [''files'', ''empty.bin'', ''v1'', ''empty.bin'']\<rparr>],
        current_version = 0\<rparr>)]"

definition example_vault2 :: vault where
  "example_vault2 =
     \<lparr>vault_dir = [''data_vault''], metadata = example_catalog2,
      disk = (disk example_vault)
        ([''data_vault'', ''files'', ''report.txt''] \<mapsto> Dir,
         [''data_vault'', ''files'', ''report.txt'', ''v1''] \<mapsto> Dir,
         [''data_vault'', ''files'', ''report.txt'', ''v1'', ''report.txt''] \<mapsto> File ''hello'',
         [''data_vault'', ''files'', ''empty.bin''] \<mapsto> Dir,
         [''data_vault'', ''files'', ''empty.bin'', ''v1''] \<mapsto> Dir,
         [''data_vault'', ''files'', ''empty.bin'', ''v1'', ''empty.bin''] \<mapsto> File [],
         [''data_vault'', ''files'', ''report.txt'', ''v2''] \<mapsto> Dir,
         [''data_vault'', ''files'', ''report.txt'', ''v2'', ''report.txt'']
           \<mapsto> File ''hello world'',
         [''data_vault'', ''metadata.json'']
           \<mapsto> File (print_json (json_of_catalog example_catalog2)))\<rparr>"

section \<open>Properties\<close>

subsection \<open>Basic facts\<close>

lemmas model_defs =
  add_file_def rollback_version_def export_file_def delete_file_def save_metadata_def
  calculate_hash_def read_bytes_def write_file_def os_mkdir_def mkdir_def copy2_def
  copy_target_def rmtree_def st_size_def exists_def is_dir_def node_at_def parent_def
  path_name_def files_dir_def metadata_file_def py_str_def digit_char_def path_str_def
  get_versions_def get_current_version_index_def get_file_list_def py_index_def
  load_metadata_def init_vault_def

lemmas example_defs =
  example_lib_def example_vault_def example_disk_def example_calls_def calls_for_def
  example_vault2_def example_catalog2_def
  json_of_catalog_def json_of_entry_def json_of_version_def

lemma succeeded_simps [simp]:
  "succeeded (Returned (ok, msg)) = ok" "succeeded (Raised x) = False"
  by (simp_all add: succeeded_def)

lemma parent_snoc [simp]: "p @ [c] \<noteq> [''/''] \<Longrightarrow> parent (p @ [c]) = p"
  by (simp add: parent_def)


lemma replicate_16:
  "replicate 16 c = [c, c, c, c, c, c, c, c, c, c, c, c, c, c, c, c]"
  by (simp add: numeral_eq_Suc)

lemma unknown_iff: "(map_of (metadata v) nm = None) = (nm \<notin> set (get_file_list v))"
  by (simp add: get_file_list_def map_of_eq_None_iff)

subsection \<open>Runs of the example\<close>

text \<open>
  The methods evaluated on the example vault, once, for the instances of the theorems
  below.
\<close>

lemma example_run:
  "\<exists>v'. add_all example_lib example_calls example_vault = Some v'
        \<and> metadata v' = metadata example_vault2"
  by (simp add: model_defs example_defs Let_def read_chunks.simps mkdir_parents.simps
      digits.simps replicate_16)


lemma example_add_export:
  "\<exists>r v_a r_b v_b.
     add_file example_lib ''2024-01-01T10:05:00'' False [''in'', ''empty.bin''] example_vault
       = (r, v_a) \<and> succeeded r
     \<and> export_file False ''empty.bin'' [''in'', ''out.bin''] v_a = (r_b, v_b) \<and> succeeded r_b
     \<and> copy_target (disk v_a) [''in'', ''empty.bin''] [''in'', ''out.bin'']
         = [''in'', ''out.bin'']"
  by (simp add: model_defs example_defs Let_def read_chunks.simps mkdir_parents.simps
      digits.simps)



lemma example_vault2_ready: "vault_ready example_vault2"
  by (simp add: vault_ready_def example_vault2_def example_vault_def is_dir_def node_at_def
      metadata_file_def)


subsection \<open>What a successful \<open>add_file\<close> does to the catalog\<close>

lemma add_file_step:
  assumes "add_file lib now io source v = (r, v')" and "succeeded r"
  shows "\<exists>info. get_versions (path_name source) v' = get_versions (path_name source) v @ [info]
          \<and> version info = int (length (get_versions (path_name source) v)) + 1
          \<and> get_current_version_index (path_name source) v'
              = int (length (get_versions (path_name source) v))"
  using assms
  by (auto simp: add_file_def Let_def get_versions_def get_current_version_index_def update_conv'
      split: if_splits sum.splits option.splits)

lemma add_file_other:
  assumes "add_file lib now io source v = (r, v')" and "k \<noteq> path_name source"
  shows "map_of (metadata v') k = map_of (metadata v) k"
  using assms
  by (auto simp: add_file_def Let_def update_conv'
      split: if_splits sum.splits option.splits)

text \<open>
  A run of successful calls appends, for the name \<open>nm\<close>, one version per call whose
  source has that base name, numbered on from the versions that were there.
\<close>

lemma add_all_versions:
  assumes "add_all lib calls v = Some v'"
  shows "\<exists>news. get_versions nm v' = get_versions nm v @ news
          \<and> map version news
              = map (\<lambda>i. int (length (get_versions nm v)) + 1 + int i)
                  [0..<length (calls_for nm calls)]
          \<and> (calls_for nm calls \<noteq> [] \<longrightarrow>
               get_current_version_index nm v'
                 = int (length (get_versions nm v)) + int (length (calls_for nm calls)) - 1)
          \<and> (calls_for nm calls = [] \<longrightarrow>
               get_current_version_index nm v' = get_current_version_index nm v)"
  using assms
proof (induction calls arbitrary: v)
  case Nil
  then show ?case by (simp add: calls_for_def)
next
  case (Cons c calls)
  obtain now io source where c: "c = (now, io, source)"
    by (cases c) auto
  obtain r v1 where step: "add_file lib now io source v = (r, v1)"
    by (cases "add_file lib now io source v") auto
  from Cons.prems c step have ok: "succeeded r" and rest: "add_all lib calls v1 = Some v'"
    by (auto split: if_splits)
  from Cons.IH[OF rest] obtain news where
    n1: "get_versions nm v' = get_versions nm v1 @ news" and
    n2: "map version news = map (\<lambda>i. int (length (get_versions nm v1)) + 1 + int i)
                              [0..<length (calls_for nm calls)]" and
    n3: "calls_for nm calls \<noteq> [] \<longrightarrow> get_current_version_index nm v'
           = int (length (get_versions nm v1)) + int (length (calls_for nm calls)) - 1" and
    n4: "calls_for nm calls = [] \<longrightarrow>
           get_current_version_index nm v' = get_current_version_index nm v1"
    by blast
  show ?case
  proof (cases "path_name source = nm")
    case True
    from add_file_step[OF step ok] True obtain info where
      i1: "get_versions nm v1 = get_versions nm v @ [info]" and
      i2: "version info = int (length (get_versions nm v)) + 1" and
      i3: "get_current_version_index nm v1 = int (length (get_versions nm v))"
      by auto
    have cf: "calls_for nm (c # calls) = c # calls_for nm calls"
      using True c by (simp add: calls_for_def)
    have "map version (info # news)
            = map (\<lambda>i. int (length (get_versions nm v)) + 1 + int i)
                [0..<Suc (length (calls_for nm calls))]"
      using n2 i1 i2 by (simp add: upt_rec[of 0] map_Suc_upt[symmetric] del: upt_Suc)
    then show ?thesis
      using n1 n3 n4 i1 i3 cf by (intro exI[of _ "info # news"]) auto
  next
    case False
    have cf: "calls_for nm (c # calls) = calls_for nm calls"
      using False c by (simp add: calls_for_def)
    from add_file_other[OF step, of nm] False
    have same: "get_versions nm v1 = get_versions nm v"
      "get_current_version_index nm v1 = get_current_version_index nm v"
      by (auto simp: get_versions_def get_current_version_index_def)
    show ?thesis using n1 n2 n3 n4 cf same by auto
  qed
qed

text \<open>
  Claim C1. Start from a catalog that does not know the name \<open>nm\<close> and run any list of
  \<open>add_file\<close> calls that all succeed (calls for other names may come in between). With
  \<open>n\<close> the number of calls whose source has the base name \<open>nm\<close>, \<open>get_versions nm\<close> then
  has length \<open>n\<close>, its version numbers are 1, 2, ..., \<open>n\<close> in this order, and the current
  index of \<open>nm\<close> is \<open>n - 1\<close>, the index of the record appended last. The run is arbitrary,
  so this holds after each of its calls.
\<close>

theorem add_file_numbers_versions:
  assumes "nm \<notin> set (get_file_list v)"
    and "add_all lib calls v = Some v'"
  shows "length (get_versions nm v') = length (calls_for nm calls)
       \<and> map version (get_versions nm v') = map int [1..<Suc (length (calls_for nm calls))]
       \<and> (calls_for nm calls \<noteq> [] \<longrightarrow>
            get_current_version_index nm v' = int (length (calls_for nm calls)) - 1)"
proof -
  from assms(1) have e: "get_versions nm v = []"
    by (simp add: get_versions_def unknown_iff[symmetric])
  from add_all_versions[OF assms(2), of nm] e obtain news where
    n1: "get_versions nm v' = news" and
    n2: "map version news = map (\<lambda>i. 1 + int i) [0..<length (calls_for nm calls)]" and
    n3: "calls_for nm calls \<noteq> [] \<longrightarrow>
           get_current_version_index nm v' = int (length (calls_for nm calls)) - 1"
    by auto
  have "map (\<lambda>i. 1 + int i) [0..<n] = map int [1..<Suc n]" for n
    by (induction n) auto
  with n1 n2 n3 show ?thesis
    by (metis length_map length_upt diff_zero)
qed

theorem add_file_numbers_versions_witness:
  "''report.txt'' \<notin> set (get_file_list example_vault)
   \<and> add_all example_lib example_calls example_vault
       = Some (the (add_all example_lib example_calls example_vault))
   \<and> map version (get_versions ''report.txt''
        (the (add_all example_lib example_calls example_vault))) = [1, 2]
   \<and> get_current_version_index ''report.txt''
        (the (add_all example_lib example_calls example_vault)) = 1"
proof -
  have h1: "''report.txt'' \<notin> set (get_file_list example_vault)"
    by (simp add: get_file_list_def example_vault_def)
  have h2: "add_all example_lib example_calls example_vault
              = Some (the (add_all example_lib example_calls example_vault))"
    using example_run by auto
  have n: "calls_for ''report.txt'' example_calls
             = [(''2024-01-01T10:00:00'', False, [''in'', ''report.txt'']),
                (''2024-01-01T10:10:00'', False, [''in2'', ''report.txt''])]"
    by (simp add: calls_for_def example_calls_def path_name_def)
  have u: "[1..<Suc 2] = [1, 2]"
    by (simp add: upt_rec)
  show ?thesis
    using h1 h2 add_file_numbers_versions[OF h1 h2] by (simp add: n u)
qed

subsection \<open>Rolling back\<close>

lemma save_metadata_ready:
  assumes "vault_ready v"
  shows "save_metadata lib v
           = Inr ((disk v)(metadata_file (vault_dir v) \<mapsto>
                    File (json_dumps lib (json_of_catalog (metadata v)))))"
  using assms
  by (simp add: save_metadata_def vault_ready_def write_file_def metadata_file_def)

lemma vault_ready_metadata [simp]: "vault_ready (v\<lparr>metadata := c\<rparr>) = vault_ready v"
  by (simp add: vault_ready_def)

text \<open>A constructor that returns leaves the vault ready, whatever catalog it loaded.\<close>

lemma mkdir_is_dir:
  assumes "mkdir d p = Inr d'"
  shows "is_dir d' p"
  using assms
  by (auto simp: mkdir_def os_mkdir_def is_dir_def exists_def node_at_def
      split: sum.splits if_splits)

lemma mkdir_keeps_dir:
  assumes "mkdir d p = Inr d'" and "is_dir d q"
  shows "is_dir d' q"
  using assms
  by (auto simp: mkdir_def os_mkdir_def is_dir_def exists_def node_at_def
      split: sum.splits if_splits)

lemma init_vault_ready:
  assumes "init_vault lib vd d = (Inr j, d')"
  shows "vault_ready \<lparr>vault_dir = vd, metadata = c, disk = d'\<rparr>"
    and "is_dir d' (files_dir vd)"
proof -
  from assms obtain d1 where m1: "mkdir d vd = Inr d1"
    and m2: "mkdir d1 (files_dir vd) = Inr d'"
    and ld: "load_metadata lib vd d' = Inr j"
    by (auto simp: init_vault_def split: sum.splits)
  from mkdir_keeps_dir[OF m2 mkdir_is_dir[OF m1]] have "is_dir d' vd" .
  moreover from ld have "\<not> is_dir d' (metadata_file vd)"
    by (auto simp: load_metadata_def read_bytes_def exists_def is_dir_def
        split: if_splits option.splits node.splits sum.splits)
  ultimately show "vault_ready \<lparr>vault_dir = vd, metadata = c, disk = d'\<rparr>"
    by (simp add: vault_ready_def)
  from mkdir_is_dir[OF m2] show "is_dir d' (files_dir vd)" .
qed

text \<open>
  Claim C2. For a name the catalog knows and an index \<open>i\<close> with \<open>0 \<le> i\<close> and \<open>i\<close> below
  the number of versions, \<open>rollback_version\<close> returns success, the current index of the
  name is \<open>i\<close> afterwards, and nothing else has moved: the versions of every name, the
  current index of every other name and the list of names are as before, and so is every
  path of the disk but \<^verbatim>\<open>metadata.json\<close>, to which the catalog was written; in
  particular everything below \<^verbatim>\<open>files\<close>, where \<open>add_file\<close> stores the content of the
  versions. The vault is assumed to be as \<open>init_vault\<close> left it, so that the catalog can
  be written.
\<close>

theorem rollback_moves_pointer_only:
  assumes "nm \<in> set (get_file_list v)"
    and "0 \<le> i" and "i < int (length (get_versions nm v))"
    and "vault_ready v"
    and "rollback_version lib nm i v = (r, v')"
  shows "r = Returned (True, ''Rolled back to version '' @ py_str (i + 1))
       \<and> get_current_version_index nm v' = i
       \<and> (\<forall>k. get_versions k v' = get_versions k v)
       \<and> (\<forall>k. k \<noteq> nm \<longrightarrow> get_current_version_index k v' = get_current_version_index k v)
       \<and> get_file_list v' = get_file_list v
       \<and> vault_dir v' = vault_dir v
       \<and> (\<forall>p. p \<noteq> metadata_file (vault_dir v) \<longrightarrow> disk v' p = disk v p)
       \<and> (\<forall>p. prefix (files_dir (vault_dir v)) p \<longrightarrow> disk v' p = disk v p)"
proof -
  from assms(1) obtain e where e: "map_of (metadata v) nm = Some e"
    using unknown_iff[of v nm] by auto
  with assms(3) have len: "i < int (length (versions e))"
    by (simp add: get_versions_def)
  let ?c = "AList.update nm (e\<lparr>current_version := i\<rparr>) (metadata v)"
  have sv: "save_metadata lib (v\<lparr>metadata := ?c\<rparr>)
              = Inr ((disk v)(metadata_file (vault_dir v) \<mapsto>
                       File (json_dumps lib (json_of_catalog ?c))))"
    using save_metadata_ready[of "v\<lparr>metadata := ?c\<rparr>" lib] assms(4) by simp
  from assms(5) e len assms(2) sv
  have r: "r = Returned (True, ''Rolled back to version '' @ py_str (i + 1))"
    and v': "v' = v\<lparr>metadata := ?c,
                    disk := (disk v)(metadata_file (vault_dir v) \<mapsto>
                       File (json_dumps lib (json_of_catalog ?c)))\<rparr>"
    by (auto simp: rollback_version_def Let_def)
  have keys: "map fst ?c = map fst (metadata v)"
    using assms(1) by (simp add: update_keys get_file_list_def)
  have store: "\<not> prefix (files_dir (vault_dir v)) (metadata_file (vault_dir v))"
    by (simp add: files_dir_def metadata_file_def)
  show ?thesis
    using r e keys store
    by (auto simp: v' get_current_version_index_def get_versions_def get_file_list_def
        update_conv')
qed

theorem rollback_moves_pointer_only_witness:
  "''report.txt'' \<in> set (get_file_list example_vault2)
   \<and> 0 < int (length (get_versions ''report.txt'' example_vault2))
   \<and> vault_ready example_vault2
   \<and> fst (rollback_version example_lib ''report.txt'' 0 example_vault2)
       = Returned (True, ''Rolled back to version 1'')
   \<and> get_current_version_index ''report.txt''
        (snd (rollback_version example_lib ''report.txt'' 0 example_vault2)) = 0
   \<and> get_versions ''report.txt''
        (snd (rollback_version example_lib ''report.txt'' 0 example_vault2))
       = get_versions ''report.txt'' example_vault2"
proof -
  have h1: "''report.txt'' \<in> set (get_file_list example_vault2)"
    by (simp add: get_file_list_def example_vault2_def example_catalog2_def)
  have h2: "(0::int) \<le> 0"
    by simp
  have h3: "0 < int (length (get_versions ''report.txt'' example_vault2))"
    by (simp add: get_versions_def example_vault2_def example_catalog2_def)
  have h5: "rollback_version example_lib ''report.txt'' 0 example_vault2
              = (fst (rollback_version example_lib ''report.txt'' 0 example_vault2),
                 snd (rollback_version example_lib ''report.txt'' 0 example_vault2))"
    by simp
  show ?thesis
    using h1 h3 example_vault2_ready
      rollback_moves_pointer_only[OF h1 h2 h3 example_vault2_ready h5]
    by (simp add: py_str_def digits.simps digit_char_def)
qed

text \<open>
  Claim C3. \<open>rollback_version\<close> on a name the catalog does not know returns the failure
  \<^verbatim>\<open>File not found\<close>, and on a known name with an index below 0 or not below the number
  of versions the failure \<^verbatim>\<open>Invalid version index\<close>. In both cases the state it leaves
  is the state it was given: catalog, current indices and disk.
\<close>

theorem rollback_rejected:
  "(nm \<notin> set (get_file_list v) \<longrightarrow>
      rollback_version lib nm i v = (Returned (False, ''File not found''), v))
   \<and> (nm \<in> set (get_file_list v) \<and> (i < 0 \<or> int (length (get_versions nm v)) \<le> i) \<longrightarrow>
      rollback_version lib nm i v = (Returned (False, ''Invalid version index''), v))"
  by (auto simp: rollback_version_def get_versions_def unknown_iff[symmetric]
      split: option.splits)

theorem rollback_rejected_witness:
  "''notes.txt'' \<notin> set (get_file_list example_vault2)
   \<and> rollback_version example_lib ''notes.txt'' 0 example_vault2
       = (Returned (False, ''File not found''), example_vault2)
   \<and> ''report.txt'' \<in> set (get_file_list example_vault2)
   \<and> int (length (get_versions ''report.txt'' example_vault2)) \<le> 2
   \<and> rollback_version example_lib ''report.txt'' 2 example_vault2
       = (Returned (False, ''Invalid version index''), example_vault2)
   \<and> rollback_version example_lib ''report.txt'' (- 1) example_vault2
       = (Returned (False, ''Invalid version index''), example_vault2)"
  using rollback_rejected[where nm = "''notes.txt''" and v = example_vault2
      and lib = example_lib and i = 0]
    rollback_rejected[where nm = "''report.txt''" and v = example_vault2
      and lib = example_lib and i = 2]
    rollback_rejected[where nm = "''report.txt''" and v = example_vault2
      and lib = example_lib and i = "- 1"]
  by (simp add: get_file_list_def get_versions_def example_vault2_def example_catalog2_def)

subsection \<open>Sources that are not files\<close>




subsection \<open>A copy that fails\<close>

text \<open>
  When the device fails the copy, \<open>add_file\<close> does not succeed and no name gets a new
  version; for a name the catalog knew already the catalog is what it was.
\<close>

lemma add_file_copy_fault:
  assumes "add_file lib now True source v = (r, v')"
  shows "\<not> succeeded r"
    and "get_versions k v' = get_versions k v"
    and "path_name source \<in> set (get_file_list v) \<Longrightarrow> metadata v' = metadata v"
proof -
  from assms show "\<not> succeeded r" "get_versions k v' = get_versions k v"
    by (auto simp: add_file_def Let_def copy2_def get_versions_def update_conv'
        split: if_splits sum.splits option.splits)
  assume "path_name source \<in> set (get_file_list v)"
  then have "map_of (metadata v) (path_name source) \<noteq> None"
    by (simp add: unknown_iff)
  with assms show "metadata v' = metadata v"
    by (auto simp: add_file_def Let_def copy2_def
        split: if_splits sum.splits option.splits)
qed

text \<open>
  Claim C7 asks that a fault of the content copy leaves the catalog as it was. The source
  inserts the entry of a new name before it copies. On the empty catalog, with the device
  failing the copy of \<^verbatim>\<open>in/report.txt\<close>, \<open>add_file\<close> raises and leaves an entry for
  \<^verbatim>\<open>report.txt\<close> with no version and current index 0 in the catalog; \<open>export_file\<close> on
  that entry raises \<^verbatim>\<open>IndexError\<close>.
\<close>

theorem add_file_copy_fault_leaves_entry:
  "metadata example_vault = []
   \<and> fst (add_file example_lib ''2024-01-01T10:00:00'' True [''in'', ''report.txt'']
            example_vault) = Raised OSError
   \<and> metadata (snd (add_file example_lib ''2024-01-01T10:00:00'' True [''in'', ''report.txt'']
                      example_vault))
       = [(''report.txt'', \<lparr>name = ''report.txt'', versions = [], current_version = 0\<rparr>)]
   \<and> fst (export_file False ''report.txt'' [''in'', ''out.txt'']
            (snd (add_file example_lib ''2024-01-01T10:00:00'' True [''in'', ''report.txt'']
                    example_vault))) = Raised IndexError"
  by (simp add: model_defs example_defs Let_def read_chunks.simps mkdir_parents.simps
      digits.simps)

subsection \<open>The fingerprint\<close>








subsection \<open>The key of an entry\<close>





subsection \<open>Loading the catalog\<close>

lemma node_at_metadata_file [simp]: "node_at d (metadata_file vd) = d (metadata_file vd)"
  by (simp add: node_at_def metadata_file_def)

lemma mkdir_other:
  assumes "mkdir d p = Inr d'" and "q \<noteq> p"
  shows "d' q = d q"
  using assms by (auto simp: mkdir_def os_mkdir_def split: sum.splits if_splits)

lemma init_vault_keeps_document:
  assumes "init_vault lib vd d = (r, d')"
  shows "d' (metadata_file vd) = d (metadata_file vd)"
proof -
  have ne: "metadata_file vd \<noteq> vd" "metadata_file vd \<noteq> files_dir vd"
    by (simp_all add: metadata_file_def files_dir_def)
  from assms show ?thesis
    by (auto simp: init_vault_def split: sum.splits dest!: mkdir_other[where q = "metadata_file vd"] simp: ne)
qed

text \<open>
  Claim C8, as the code has it. Without a \<^verbatim>\<open>metadata.json\<close> in the vault directory,
  \<open>load_metadata\<close> returns the empty catalog. With a document that \<^verbatim>\<open>json.load\<close> rejects
  it raises the decoding error; the constructor then raises too, and the document is on
  the disk afterwards as it was before. A document that \<^verbatim>\<open>json.load\<close> accepts is
  returned as it is read, whatever its shape: nothing compares it with a schema.
\<close>

theorem load_metadata_cases:
  "(\<not> exists d (metadata_file vd) \<longrightarrow> load_metadata lib vd d = Inr (JObj []))
   \<and> (d (metadata_file vd) = Some (File bs) \<and> json_loads lib bs = None \<longrightarrow>
        load_metadata lib vd d = Inl JSONDecodeError
        \<and> (\<exists>x. fst (init_vault lib vd d) = Inl x)
        \<and> snd (init_vault lib vd d) (metadata_file vd) = Some (File bs))
   \<and> (d (metadata_file vd) = Some (File bs) \<and> json_loads lib bs = Some j \<longrightarrow>
        load_metadata lib vd d = Inr j)"
proof (intro conjI impI)
  assume a: "d (metadata_file vd) = Some (File bs) \<and> json_loads lib bs = None"
  then show "load_metadata lib vd d = Inl JSONDecodeError"
    by (simp add: load_metadata_def exists_def read_bytes_def)
  have keep: "snd (init_vault lib vd d) (metadata_file vd) = d (metadata_file vd)"
    using init_vault_keeps_document[of lib vd d] by (cases "init_vault lib vd d") auto
  with a show "snd (init_vault lib vd d) (metadata_file vd) = Some (File bs)"
    by simp
  have "load_metadata lib vd (snd (init_vault lib vd d)) = Inl JSONDecodeError"
    using a keep by (simp add: load_metadata_def exists_def read_bytes_def)
  then show "\<exists>x. fst (init_vault lib vd d) = Inl x"
    by (auto simp: init_vault_def split: sum.splits)
qed (simp_all add: load_metadata_def exists_def read_bytes_def)

theorem load_metadata_cases_witness:
  "\<not> exists (disk example_vault) (metadata_file [''data_vault''])
   \<and> load_metadata example_lib [''data_vault''] (disk example_vault) = Inr (JObj [])
   \<and> json_loads example_lib ''{oops'' = None
   \<and> load_metadata example_lib [''data_vault'']
        ((disk example_vault)([''data_vault'', ''metadata.json''] \<mapsto> File ''{oops''))
       = Inl JSONDecodeError
   \<and> snd (init_vault example_lib [''data_vault'']
        ((disk example_vault)([''data_vault'', ''metadata.json''] \<mapsto> File ''{oops'')))
        [''data_vault'', ''metadata.json''] = Some (File ''{oops'')
   \<and> json_loads example_lib ''{}'' = Some (JObj [])
   \<and> load_metadata example_lib [''data_vault'']
        ((disk example_vault)([''data_vault'', ''metadata.json''] \<mapsto> File ''{}''))
       = Inr (JObj [])"
  using load_metadata_cases[where d = "disk example_vault" and vd = "[''data_vault'']"
      and lib = example_lib]
    load_metadata_cases[where vd = "[''data_vault'']" and lib = example_lib
      and d = "(disk example_vault)([''data_vault'', ''metadata.json''] \<mapsto> File ''{oops'')"
      and bs = "''{oops''"]
    load_metadata_cases[where vd = "[''data_vault'']" and lib = example_lib
      and d = "(disk example_vault)([''data_vault'', ''metadata.json''] \<mapsto> File ''{}'')"
      and bs = "''{}''" and j = "JObj []"]
  by (simp add: exists_def node_at_def metadata_file_def example_vault_def example_disk_def
      example_lib_def)

text \<open>
  The claim as the specification words it asks for a failure whenever the document does
  not fit the schema of section 6. The document \<^verbatim>\<open>[]\<close> is JSON and not a catalog;
  \<open>load_metadata\<close> returns it, and the constructor succeeds with it.
\<close>

theorem load_metadata_schema_counterexample:
  "json_loads example_lib ''[]'' = Some (JArr [])
   \<and> \<not> spec_catalog_schema (JArr [])
   \<and> load_metadata example_lib [''data_vault'']
        ((disk example_vault)([''data_vault'', ''metadata.json''] \<mapsto> File ''[]''))
       = Inr (JArr [])
   \<and> fst (init_vault example_lib [''data_vault'']
        ((disk example_vault)([''data_vault'', ''metadata.json''] \<mapsto> File ''[]'')))
       = Inr (JArr [])"
  by (simp add: load_metadata_def init_vault_def mkdir_def os_mkdir_def exists_def node_at_def
     is_dir_def read_bytes_def metadata_file_def files_dir_def example_lib_def example_vault_def)

subsection \<open>Deleting a file\<close>









subsection \<open>Adding and exporting\<close>

lemma write_file_result:
  assumes "write_file d p bs = Inr d'"
  shows "d' = d(p \<mapsto> File bs)" and "node_at d' p = Some (File bs)"
  using assms by (auto simp: write_file_def is_dir_def node_at_def split: if_splits)

lemma copy2_result:
  assumes "copy2 io d src dst = Inr d'"
  shows "\<exists>bs. read_bytes d src = Inr bs \<and> d' = d(copy_target d src dst \<mapsto> File bs)
            \<and> node_at d' (copy_target d src dst) = Some (File bs)"
  using assms write_file_result
  by (fastforce simp: copy2_def Let_def split: if_splits sum.splits)

lemma os_mkdir_keeps:
  assumes "os_mkdir d p = Inr d'" and "d q = Some n"
  shows "d' q = Some n"
  using assms by (auto simp: os_mkdir_def exists_def node_at_def split: if_splits)

lemma mkdir_keeps:
  assumes "mkdir d p = Inr d'" and "d q = Some n"
  shows "d' q = Some n"
  using assms os_mkdir_keeps by (fastforce simp: mkdir_def split: sum.splits if_splits)

lemma mkdir_parents_keeps:
  assumes "mkdir_parents d p = Inr d'" and "d q = Some n"
  shows "d' q = Some n"
  using assms
proof (induction d p arbitrary: d' rule: mkdir_parents.induct)
  case (1 d p)
  show ?case
  proof (cases "os_mkdir d p")
    case (Inr d1)
    with "1.prems" show ?thesis
      using os_mkdir_keeps[OF Inr] by (simp add: mkdir_parents.simps[of d p])
  next
    case (Inl e)
    show ?thesis
    proof (cases "e = FileNotFoundError \<and> parent p \<noteq> p")
      case True
      with Inl "1.prems"(1) obtain d1 where
        up: "mkdir_parents d (parent p) = Inr d1" and last: "mkdir d1 p = Inr d'"
        by (auto simp: mkdir_parents.simps[of d p] split: sum.splits)
      from "1.IH"[OF Inl _ _ up "1.prems"(2)] True have "d1 q = Some n"
        by simp
      with last show ?thesis
        by (rule mkdir_keeps)
    next
      case False
      with Inl "1.prems" show ?thesis
        by (auto simp: mkdir_parents.simps[of d p] split: if_splits)
    qed
  qed
qed

lemma read_bytes_file: "(read_bytes d p = Inr bs) = (node_at d p = Some (File bs))"
  by (auto simp: read_bytes_def split: option.splits node.splits)

lemma node_at_file: "node_at d p = Some (File bs) \<Longrightarrow> d p = Some (File bs)"
  by (auto simp: node_at_def split: if_splits)

lemma file_node_at: "d p = Some (File bs) \<Longrightarrow> p \<noteq> [] \<Longrightarrow> p \<noteq> [''/''] \<Longrightarrow> node_at d p = Some (File bs)"
  by (auto simp: node_at_def split: if_splits)

lemma add_file_success_steps:
  assumes "add_file lib now io source v = (r, v')" and "succeeded r"
  shows "\<exists>fp d2 d3 sz d5.
      calculate_hash lib (disk v) source = Inr fp
    \<and> mkdir_parents (disk v)
         (vault_dir v @ [''files'', path_name source,
            ''v'' @ py_str (int (length (get_versions (path_name source) v)) + 1)]) = Inr d2
    \<and> copy2 io d2 source
         (vault_dir v @ [''files'', path_name source,
            ''v'' @ py_str (int (length (get_versions (path_name source) v)) + 1),
            path_name source]) = Inr d3
    \<and> write_file d3 (metadata_file (vault_dir v))
         (json_dumps lib (json_of_catalog (metadata v'))) = Inr d5
    \<and> get_versions (path_name source) v' = get_versions (path_name source) v @
         [\<lparr>version = int (length (get_versions (path_name source) v)) + 1,
           timestamp = now, size_bytes = sz, hash = fp,
           path = [''files'', path_name source,
                   ''v'' @ py_str (int (length (get_versions (path_name source) v)) + 1),
                   path_name source]\<rparr>]
    \<and> get_current_version_index (path_name source) v'
         = int (length (get_versions (path_name source) v))
    \<and> disk v' = d5 \<and> vault_dir v' = vault_dir v"
  using assms
  by (auto simp: add_file_def Let_def get_versions_def get_current_version_index_def
      files_dir_def save_metadata_def update_conv'
      split: if_splits sum.splits option.splits)

lemma py_index_last: "py_index (xs @ [x]) (int (length xs)) = Some x"
  by (simp add: py_index_def)

lemma stored_path_facts:
  "path_name (vd @ [''files'', nm, vn, nm]) = nm"
  "vd @ [''files'', nm, vn, nm] \<noteq> metadata_file vd"
  "node_at d (vd @ [''files'', nm, vn, nm]) = d (vd @ [''files'', nm, vn, nm])"
  by (auto simp: path_name_def metadata_file_def node_at_def)

lemma export_file_success_steps:
  assumes "export_file io nm dest v = (r, v')" and "succeeded r"
    and "map_of (metadata v) nm = Some e"
    and "py_index (versions e) (current_version e) = Some info"
  shows "\<exists>dd. copy2 io (disk v) (vault_dir v @ path info) dest = Inr dd
             \<and> v' = v\<lparr>disk := dd\<rparr>"
  using assms
  by (auto simp: export_file_def Let_def split: if_splits sum.splits)

text \<open>
  Claim C4. Let the source hold the bytes \<open>B\<close> (any bytes, none at all included), let
  \<open>add_file\<close> of it succeed, and let \<open>export_file\<close> of its name succeed after it. Then
  the file the export wrote holds exactly \<open>B\<close>. It is the destination path, or the file of
  the same name inside it when the destination is a directory, which is how
  \<^verbatim>\<open>shutil.copy2\<close> reads a destination. And hashing that file again gives the fingerprint of
  the current version record.
\<close>

theorem add_then_export_round_trip:
  assumes src: "read_bytes (disk v) source = Inr B"
    and add: "add_file lib now io source v = (r, v_a)" and ok1: "succeeded r"
    and exp: "export_file io_b (path_name source) dest v_a = (r_b, v_b)"
    and ok2: "succeeded r_b"
  shows "read_bytes (disk v_b) (copy_target (disk v_a) source dest) = Inr B
       \<and> (\<exists>info. py_index (get_versions (path_name source) v_b)
                     (get_current_version_index (path_name source) v_b) = Some info
                 \<and> calculate_hash lib (disk v_b) (copy_target (disk v_a) source dest)
                     = Inr (hash info))"
proof -
  let ?nm = "path_name source"
  let ?vn = "''v'' @ py_str (int (length (get_versions ?nm v)) + 1)"
  let ?P = "[''files'', ?nm, ?vn, ?nm]"
  let ?S = "vault_dir v @ ?P"
  let ?mf = "metadata_file (vault_dir v)"
  from add_file_success_steps[OF add ok1] obtain fp d2 d3 sz d5 where
    fp: "calculate_hash lib (disk v) source = Inr fp" and
    mk: "mkdir_parents (disk v) (vault_dir v @ [''files'', ?nm, ?vn]) = Inr d2" and
    cp: "copy2 io d2 source ?S = Inr d3" and
    wr: "write_file d3 ?mf (json_dumps lib (json_of_catalog (metadata v_a))) = Inr d5" and
    vs: "get_versions ?nm v_a = get_versions ?nm v @
           [\<lparr>version = int (length (get_versions ?nm v)) + 1, timestamp = now,
             size_bytes = sz, hash = fp, path = ?P\<rparr>]" and
    cur: "get_current_version_index ?nm v_a = int (length (get_versions ?nm v))" and
    dk: "disk v_a = d5" and vd: "vault_dir v_a = vault_dir v"
    by blast
  let ?info = "\<lparr>version = int (length (get_versions ?nm v)) + 1, timestamp = now,
                size_bytes = sz, hash = fp, path = ?P\<rparr>"
  have fpB: "fp = take 16 (sha_hexdigest lib
               (foldl (sha_update lib) (sha_new lib) (read_chunks B)))"
    using fp src by (simp add: calculate_hash_def)
  \<comment> \<open>the source is still there after the directories were made\<close>
  from src have "node_at (disk v) source = Some (File B)"
    by (simp add: read_bytes_file)
  then have "disk v source = Some (File B)"
    by (rule node_at_file)
  with mk have "d2 source = Some (File B)"
    by (rule mkdir_parents_keeps)
  moreover from src have "source \<noteq> []" "source \<noteq> [''/'']"
    by (auto simp: read_bytes_file node_at_def)
  ultimately have "node_at d2 source = Some (File B)"
    by (rule file_node_at)
  then have src2: "read_bytes d2 source = Inr B"
    by (simp add: read_bytes_file)
  \<comment> \<open>what the copy wrote\<close>
  from copy2_result[OF cp] src2 have d3: "d3 = d2(copy_target d2 source ?S \<mapsto> File B)"
    by auto
  from write_file_result(1)[OF wr] have d5: "d5 = d3(?mf \<mapsto> File (json_dumps lib (json_of_catalog (metadata v_a))))"
    .
  \<comment> \<open>the export reads the record appended last\<close>
  from vs obtain e where e: "map_of (metadata v_a) ?nm = Some e"
    and ve: "versions e = get_versions ?nm v @ [?info]"
    by (auto simp: get_versions_def split: option.splits)
  from cur e have ce: "current_version e = int (length (get_versions ?nm v))"
    by (simp add: get_current_version_index_def)
  have idx: "py_index (versions e) (current_version e) = Some ?info"
    by (simp add: ve ce py_index_last)
  from export_file_success_steps[OF exp ok2 e idx] obtain dd where
    cpe: "copy2 io_b (disk v_a) ?S dest = Inr dd" and vb: "v_b = v_a\<lparr>disk := dd\<rparr>"
    by (auto simp: vd)
  from copy2_result[OF cpe] obtain bs where
    rd: "read_bytes (disk v_a) ?S = Inr bs" and
    out: "node_at dd (copy_target (disk v_a) ?S dest) = Some (File bs)"
    by blast
  \<comment> \<open>and what it reads is what the add stored\<close>
  from rd have "node_at d5 ?S = Some (File bs)"
    by (simp add: dk read_bytes_file)
  then have "d5 ?S = Some (File bs)"
    by (rule node_at_file)
  then have d3S: "d3 ?S = Some (File bs)"
    using stored_path_facts(2)[of "vault_dir v" ?nm ?vn] by (simp add: d5)
  have "bs = B"
  proof (cases "is_dir d2 ?S")
    case True
    then have "d2 ?S = Some Dir"
      using stored_path_facts(3)[of d2 "vault_dir v" ?nm ?vn] by (simp add: is_dir_def)
    with d3S True show ?thesis
      by (simp add: d3 copy_target_def)
  next
    case False
    with d3S show ?thesis
      by (simp add: d3 copy_target_def)
  qed
  have tgt: "copy_target (disk v_a) ?S dest = copy_target (disk v_a) source dest"
    using stored_path_facts(1)[of "vault_dir v" ?nm ?vn] by (simp add: copy_target_def)
  from out have "node_at dd (copy_target (disk v_a) source dest) = Some (File bs)"
    unfolding tgt .
  then have read: "read_bytes (disk v_b) (copy_target (disk v_a) source dest) = Inr B"
    using \<open>bs = B\<close> by (simp add: vb read_bytes_file)
  have "py_index (get_versions ?nm v_b) (get_current_version_index ?nm v_b) = Some ?info"
    using idx e by (simp add: vb get_versions_def get_current_version_index_def)
  moreover have "calculate_hash lib (disk v_b) (copy_target (disk v_a) source dest)
                   = Inr (hash ?info)"
    using read by (simp add: calculate_hash_def fpB)
  ultimately show ?thesis
    using read by blast
qed

theorem add_then_export_round_trip_witness:
  "read_bytes (disk example_vault) [''in'', ''empty.bin''] = Inr []
   \<and> succeeded (fst (add_file example_lib ''2024-01-01T10:05:00'' False
                        [''in'', ''empty.bin''] example_vault))
   \<and> succeeded (fst (export_file False ''empty.bin'' [''in'', ''out.bin'']
                        (snd (add_file example_lib ''2024-01-01T10:05:00'' False
                                [''in'', ''empty.bin''] example_vault))))
   \<and> read_bytes
        (disk (snd (export_file False ''empty.bin'' [''in'', ''out.bin'']
                      (snd (add_file example_lib ''2024-01-01T10:05:00'' False
                              [''in'', ''empty.bin''] example_vault)))))
        [''in'', ''out.bin''] = Inr []"
proof -
  from example_add_export obtain r v_a r_b v_b where
    a: "add_file example_lib ''2024-01-01T10:05:00'' False [''in'', ''empty.bin''] example_vault
          = (r, v_a)" and ok: "succeeded r" and
    e: "export_file False ''empty.bin'' [''in'', ''out.bin''] v_a = (r_b, v_b)" and
    ok_b: "succeeded r_b" and
    t: "copy_target (disk v_a) [''in'', ''empty.bin''] [''in'', ''out.bin'']
          = [''in'', ''out.bin'']"
    by blast
  have src: "read_bytes (disk example_vault) [''in'', ''empty.bin''] = Inr []"
    by (simp add: read_bytes_def node_at_def example_vault_def example_disk_def)
  have nm: "path_name [''in'', ''empty.bin''] = ''empty.bin''"
    by (simp add: path_name_def)
  from e have e': "export_file False (path_name [''in'', ''empty.bin'']) [''in'', ''out.bin''] v_a
                     = (r_b, v_b)"
    by (simp add: nm)
  show ?thesis
    using src ok ok_b add_then_export_round_trip[OF src a ok e' ok_b]
    by (simp add: a e t)
qed

end
